theory Spec2Isabelle
  imports Complex_Main
begin

section \<open>Data model (types.ts)\<close>

text \<open>
  The three interfaces of \<^verbatim>\<open>types.ts\<close> as records. A JavaScript \<^verbatim>\<open>number\<close> is
  only carried around by the controller, never computed with, so it is a \<^typ>\<open>real\<close>;
  a \<^verbatim>\<open>Date\<close> is its time value in milliseconds. An optional property is an
  \<^typ>\<open>'a option\<close>, \<^verbatim>\<open>null\<close> and \<^verbatim>\<open>undefined\<close> are \<^term>\<open>None\<close>.
  Several interfaces share the property names \<^verbatim>\<open>name\<close> and \<^verbatim>\<open>value\<close>; where
  two records are in scope the field is written with its record (\<^verbatim>\<open>File.name\<close>).
\<close>

type_synonym number = real

type_synonym Date = int

datatype Trend = up | down | neutral

record ChartPoint =
  name :: string
  "value" :: number
  category :: "string option"

datatype StatValue = Str string | Num number

record Statistic =
  label :: string
  "value" :: StatValue
  trend :: "Trend option"

record DataAnalysisResult =
  summary :: string
  keyInsights :: "string list"
  suggestions :: "string list"
  chartData :: "ChartPoint list"
  statistics :: "Statistic list"

datatype Role = user | model

record ChatMessage =
  role :: Role
  "text" :: string
  timestamp :: Date

text \<open>
  The browser's \<^verbatim>\<open>File\<close>: the controller reads its \<^verbatim>\<open>name\<close> and hands the object
  itself to the parsers; \<^verbatim>\<open>payload\<close> stands for the bytes behind it.
\<close>

record File =
  name :: string
  payload :: string

record FileData =
  name :: string
  content :: string
  type :: string

section \<open>JavaScript values the controller relies on\<close>

text \<open>
  A thrown value, as the two \<^verbatim>\<open>catch (err: any)\<close> blocks read it: only its
  \<^verbatim>\<open>message\<close> property is looked at, which is a string or absent. The model covers
  every thrown value on which a property can be read (an \<^verbatim>\<open>Error\<close>, any object, any
  primitive); a promise rejected with \<^verbatim>\<open>null\<close> or \<^verbatim>\<open>undefined\<close> itself is outside it.
\<close>

datatype thrown = Error (message: "string option")

text \<open>
  \<^verbatim>\<open>a || b\<close> on a possibly absent string: the empty string and \<^verbatim>\<open>undefined\<close> are
  falsy.
\<close>

definition or_else :: "string option \<Rightarrow> string \<Rightarrow> string" where
  "or_else a b = (case a of None \<Rightarrow> b | Some x \<Rightarrow> if x = [] then b else x)"

text \<open>\<^verbatim>\<open>'Error: ' + v\<close> turns an absent \<^verbatim>\<open>v\<close> into the text \<^verbatim>\<open>undefined\<close>.\<close>

definition string_of :: "string option \<Rightarrow> string" where
  "string_of a = (case a of None \<Rightarrow> ''undefined'' | Some x \<Rightarrow> x)"

text \<open>
  \<^verbatim>\<open>String.prototype.toLowerCase\<close> on the characters a \<^typ>\<open>string\<close> holds (code points
  below 256): the ASCII capitals and the Latin-1 capitals (192 to 222 but the
  multiplication sign 215) move up by 32, every other character stays.
\<close>

definition toLowerChar :: "char \<Rightarrow> char" where
  "toLowerChar c =
     (let n = (of_char c :: nat) in
      if (65 \<le> n \<and> n \<le> 90) \<or> (192 \<le> n \<and> n \<le> 222 \<and> n \<noteq> 215)
      then char_of (n + 32) else c)"

definition toLowerCase :: "string \<Rightarrow> string" where
  "toLowerCase s = map toLowerChar s"

text \<open>
  \<^verbatim>\<open>s.split(sep)\<close> for a one-character separator: the pieces between the
  separators, one more than there are separators, so never the empty array.
\<close>

fun js_split :: "char \<Rightarrow> string \<Rightarrow> string list" where
  "js_split sep [] = [[]]"
| "js_split sep (c # cs) =
     (if c = sep then [] # js_split sep cs
      else (case js_split sep cs of
              [] \<Rightarrow> [[c]]
            | w # ws \<Rightarrow> (c # w) # ws))"

text \<open>\<^verbatim>\<open>Array.prototype.pop\<close>: the last element, \<^verbatim>\<open>undefined\<close> on the empty array.\<close>

definition js_pop :: "'a list \<Rightarrow> 'a option" where
  "js_pop xs = (if xs = [] then None else Some (last xs))"

section \<open>The services the controller calls\<close>

text \<open>
  \<^verbatim>\<open>App.tsx\<close> imports the parsers from \<^verbatim>\<open>services/fileParser.ts\<close> and the two remote
  calls from \<^verbatim>\<open>services/geminiService.ts\<close>, and calls \<^verbatim>\<open>file.text()\<close> of the browser.
  The controller is verified for every behaviour of these collaborators: each is a
  parameter that either throws (rejects), \<^term>\<open>Inl\<close>, or returns, \<^term>\<open>Inr\<close>.
\<close>

record Services =
  file_text :: "File \<Rightarrow> thrown + string"
  parseCSV :: "string \<Rightarrow> thrown + string"
  parseExcel :: "File \<Rightarrow> thrown + string"
  parsePDF :: "File \<Rightarrow> thrown + string"
  analyzeData :: "string \<Rightarrow> string \<Rightarrow> thrown + DataAnalysisResult"
  chatWithData :: "string \<Rightarrow> string \<Rightarrow> (Role \<times> string) list \<Rightarrow> thrown + string"

section \<open>Session state (the useState cells of App)\<close>

record Session =
  isProcessing :: bool
  fileData :: "FileData option"
  analysis :: "DataAnalysisResult option"
  chatMessages :: "ChatMessage list"
  isChatLoading :: bool
  error :: "string option"

text \<open>The initial values given to \<^verbatim>\<open>useState\<close>.\<close>

definition initial_session :: Session where
  "initial_session =
     \<lparr>isProcessing = False, fileData = None, analysis = None,
      chatMessages = [], isChatLoading = False, error = None\<rparr>"

text \<open>
  The state setters. \<^verbatim>\<open>setChatMessages\<close> is called both with a value and with an
  updater function \<^verbatim>\<open>prev => [...prev, msg]\<close>; the updater form is
  \<open>appendChatMessage\<close>, which reads the history current when the update is applied.
\<close>

definition setIsProcessing :: "bool \<Rightarrow> Session \<Rightarrow> Session" where
  "setIsProcessing v s = s\<lparr>isProcessing := v\<rparr>"

definition setFileData :: "FileData option \<Rightarrow> Session \<Rightarrow> Session" where
  "setFileData v s = s\<lparr>fileData := v\<rparr>"

definition setAnalysis :: "DataAnalysisResult option \<Rightarrow> Session \<Rightarrow> Session" where
  "setAnalysis v s = s\<lparr>analysis := v\<rparr>"

definition setChatMessages :: "ChatMessage list \<Rightarrow> Session \<Rightarrow> Session" where
  "setChatMessages v s = s\<lparr>chatMessages := v\<rparr>"

definition appendChatMessage :: "ChatMessage \<Rightarrow> Session \<Rightarrow> Session" where
  "appendChatMessage msg s = s\<lparr>chatMessages := chatMessages s @ [msg]\<rparr>"

definition setIsChatLoading :: "bool \<Rightarrow> Session \<Rightarrow> Session" where
  "setIsChatLoading v s = s\<lparr>isChatLoading := v\<rparr>"

definition setError :: "string option \<Rightarrow> Session \<Rightarrow> Session" where
  "setError v s = s\<lparr>error := v\<rparr>"

section \<open>handleFileSelect (App.tsx, lines 18 to 48)\<close>

text \<open>\<^verbatim>\<open>file.name.split('.').pop()?.toLowerCase()\<close>\<close>

definition file_extension :: "File \<Rightarrow> string option" where
  "file_extension file = map_option toLowerCase (js_pop (js_split CHR ''.'' (File.name file)))"

definition unsupported_format :: string where
  "unsupported_format = ''Unsupported file format. Please upload CSV, Excel, or PDF.''"

text \<open>
  Lines 22 to 34: the value of \<^verbatim>\<open>content\<close> when the chain of branches returns, or
  what it throws.
\<close>

definition extract_content :: "Services \<Rightarrow> File \<Rightarrow> thrown + string" where
  "extract_content env file =
     (let extension = file_extension file in
      if extension = Some ''csv'' then
        (case file_text env file of
           Inl err \<Rightarrow> Inl err
         | Inr txt \<Rightarrow> parseCSV env txt)
      else if extension = Some ''xlsx'' \<or> extension = Some ''xls'' then parseExcel env file
      else if extension = Some ''pdf'' then parsePDF env file
      else Inl (Error (Some unsupported_format)))"

text \<open>The \<^verbatim>\<open>catch\<close> block, lines 42 to 44 (the console output is not modelled).\<close>

definition catch_message :: "thrown \<Rightarrow> string" where
  "catch_message err = or_else (message err) ''An error occurred during file processing.''"

definition catch_upload :: "thrown \<Rightarrow> Session \<Rightarrow> Session" where
  "catch_upload err s = setError (Some (catch_message err)) s"

text \<open>
  One run of the handler with no other handler interleaved at its \<^verbatim>\<open>await\<close>s: the
  setters in the order the code calls them, the \<^verbatim>\<open>finally\<close> block last.
\<close>

definition handleFileSelect :: "Services \<Rightarrow> File \<Rightarrow> Session \<Rightarrow> Session" where
  "handleFileSelect env file s0 =
     (let s1 = setIsProcessing True s0;
          s2 = setError None s1;
          extension = file_extension file;
          s3 = (case extract_content env file of
                  Inl err \<Rightarrow> catch_upload err s2
                | Inr c \<Rightarrow>
                    (let s4 = setFileData
                                (Some \<lparr>name = File.name file, content = c,
                                       type = or_else extension ''''\<rparr>) s2
                     in case analyzeData env (File.name file) c of
                          Inl err \<Rightarrow> catch_upload err s4
                        | Inr result \<Rightarrow>
                            (let s5 = setAnalysis (Some result) s4;
                                 s6 = setChatMessages [] s5
                             in s6)))
      in setIsProcessing False s3)"

section \<open>handleSendMessage (App.tsx, lines 50 to 72)\<close>

text \<open>The three arguments of one \<^verbatim>\<open>chatWithData\<close> call.\<close>

record ChatRequest =
  question :: string
  grounding :: string
  history :: "(Role \<times> string) list"

text \<open>
  The handler suspends at \<^verbatim>\<open>await chatWithData(...)\<close>, so it is two steps. The
  first, lines 51 to 62, runs when the handler is called, on the state its closure was
  rendered with: the guard, the optimistic append, the loading flag, and the request
  that goes out (none when the guard returns). \<open>now\<close> is the clock read by
  \<^verbatim>\<open>new Date()\<close>.
\<close>

definition handleSendMessage_start ::
  "string \<Rightarrow> Date \<Rightarrow> Session \<Rightarrow> Session \<times> ChatRequest option" where
  "handleSendMessage_start txt now s =
     (case fileData s of
        None \<Rightarrow> (s, None)
      | Some fd \<Rightarrow>
          (let userMsg = \<lparr>role = user, text = txt, timestamp = now\<rparr>;
               s1 = appendChatMessage userMsg s;
               s2 = setIsChatLoading True s1
           in (s2, Some \<lparr>question = txt, grounding = content fd,
                         history = map (\<lambda>m. (role m, text m)) (chatMessages s)\<rparr>)))"

text \<open>
  The second step, lines 64 to 71, runs when the call settles, on the state current at
  that moment: the reply or the synthesized error message is appended, then the
  \<^verbatim>\<open>finally\<close> block clears the loading flag.
\<close>

definition handleSendMessage_settle :: "thrown + string \<Rightarrow> Date \<Rightarrow> Session \<Rightarrow> Session" where
  "handleSendMessage_settle outcome now s =
     (let s1 = (case outcome of
                  Inr response \<Rightarrow>
                    appendChatMessage
                      \<lparr>role = model,
                       text = or_else (Some response) ''Sorry, I could not process that.'',
                       timestamp = now\<rparr> s
                | Inl err \<Rightarrow>
                    appendChatMessage
                      \<lparr>role = model, text = ''Error: '' @ string_of (message err),
                       timestamp = now\<rparr> s)
      in setIsChatLoading False s1)"

text \<open>One run of the handler with nothing interleaved between its two steps.\<close>

definition handleSendMessage :: "Services \<Rightarrow> string \<Rightarrow> Date \<Rightarrow> Date \<Rightarrow> Session \<Rightarrow> Session" where
  "handleSendMessage env txt t1 t2 s =
     (case handleSendMessage_start txt t1 s of
        (s1, None) \<Rightarrow> s1
      | (s1, Some req) \<Rightarrow>
          handleSendMessage_settle
            (chatWithData env (question req) (grounding req) (history req)) t2 s1)"

section \<open>handleReset (App.tsx, lines 74 to 79)\<close>

definition handleReset :: "Session \<Rightarrow> Session" where
  "handleReset s0 =
     (let s1 = setFileData None s0;
          s2 = setAnalysis None s1;
          s3 = setChatMessages [] s2;
          s4 = setError None s3
      in s4)"

section \<open>Test doubles and sample sessions\<close>

text \<open>
  Concrete collaborators for the scenarios: a CSV parser that passes the text through,
  a workbook parser that rejects, an analysis call that returns the fixed result of the
  upload scenario, and a chat call that answers with a fixed text.
\<close>

definition stub_result :: DataAnalysisResult where
  "stub_result =
     \<lparr>summary = ''ok'', keyInsights = [], suggestions = [], chartData = [], statistics = []\<rparr>"

definition stub_services :: Services where
  "stub_services =
     \<lparr>file_text = (\<lambda>f. Inr (payload f)),
      parseCSV = (\<lambda>t. Inr t),
      parseExcel = (\<lambda>f. Inl (Error (Some ''Corrupt workbook''))),
      parsePDF = (\<lambda>f. Inr (payload f)),
      analyzeData = (\<lambda>n c. Inr stub_result),
      chatWithData = (\<lambda>q g h. Inr ''Two rows.'')\<rparr>"

text \<open>The same collaborators with both remote calls failing.\<close>

definition offline_services :: Services where
  "offline_services =
     stub_services
       \<lparr>analyzeData := (\<lambda>n c. Inl (Error (Some ''Network error''))),
        chatWithData := (\<lambda>q g h. Inl (Error (Some ''Network error'')))\<rparr>"

text \<open>The same collaborators with a chat call that throws a value without a message.\<close>

definition crashing_services :: Services where
  "crashing_services = stub_services\<lparr>chatWithData := (\<lambda>q g h. Inl (Error None))\<rparr>"

text \<open>The same collaborators with a chat call that answers with the empty string.\<close>

definition mute_services :: Services where
  "mute_services = stub_services\<lparr>chatWithData := (\<lambda>q g h. Inr [])\<rparr>"

definition data_csv :: File where
  "data_csv = \<lparr>File.name = ''data.csv'', payload = ''a,b'' @ [CHR 0x0A] @ ''1,2''\<rparr>"

definition book_xlsx :: File where
  "book_xlsx = \<lparr>File.name = ''book.XLSX'', payload = ''PK''\<rparr>"

definition broken_xlsx :: File where
  "broken_xlsx = \<lparr>File.name = ''broken.xlsx'', payload = ''PK''\<rparr>"

definition bare_csv :: File where
  "bare_csv = \<lparr>File.name = ''CSV'', payload = ''a,b''\<rparr>"

definition report_docx :: File where
  "report_docx = \<lparr>File.name = ''report.docx'', payload = ''PK''\<rparr>"

definition scan_pdf :: File where
  "scan_pdf = \<lparr>File.name = ''scan.v2.pdf'', payload = ''%PDF''\<rparr>"

text \<open>A session with a file, its analysis and one finished chat turn.\<close>

definition ready_session :: Session where
  "ready_session =
     \<lparr>isProcessing = False,
      fileData = Some \<lparr>name = ''old.csv'', content = ''x,y'', type = ''csv''\<rparr>,
      analysis = Some stub_result,
      chatMessages = [\<lparr>role = user, text = ''How many rows?'', timestamp = 10\<rparr>,
                      \<lparr>role = model, text = ''Two rows.'', timestamp = 11\<rparr>],
      isChatLoading = False, error = None\<rparr>"

section \<open>Extensions, stated without the code\<close>

text \<open>
  What it means for the text \<open>e\<close> to be the extension \<open>x\<close>, said independently of
  \<open>file_extension\<close> and \<open>toLowerCase\<close>: \<open>e\<close> is \<open>x\<close> letter by letter, each letter
  in either case (an ASCII capital is 32 below its small letter). It is used with
  \<open>x\<close> one of the four small-letter extensions.
\<close>

definition spells :: "string \<Rightarrow> string \<Rightarrow> bool" where
  "spells e x = list_all2 (\<lambda>c l. c = l \<or> (of_char c :: nat) + 32 = of_char l) e x"

section \<open>Facts shared by the proofs\<close>

lemmas setters =
  setIsProcessing_def setFileData_def setAnalysis_def setChatMessages_def
  appendChatMessage_def setIsChatLoading_def setError_def

text \<open>
  \<open>split\<close> returns at least one piece, so \<open>pop\<close> always finds one and the optional
  call \<^verbatim>\<open>?.toLowerCase()\<close> never short-circuits: every file has an extension in the
  sense of the code. A name without a dot is its own extension.
\<close>

lemma js_split_not_empty: "js_split sep s \<noteq> []"
  by (induction s) (auto split: list.splits)

lemma file_extension_defined: "\<exists>e. file_extension file = Some e"
  by (simp add: file_extension_def js_pop_def js_split_not_empty)

lemma js_split_no_separator: "sep \<notin> set s \<Longrightarrow> js_split sep s = [s]"
  by (induction s) auto

lemma file_extension_without_dot:
  "CHR ''.'' \<notin> set (File.name file) \<Longrightarrow>
   file_extension file = Some (toLowerCase (File.name file))"
  by (simp add: file_extension_def js_pop_def js_split_no_separator)

text \<open>
  The last piece of \<open>split\<close> is the text after the last separator, or the whole
  text when there is none.
\<close>

lemma js_split_append:
  "js_split sep (xs @ sep # ys) = js_split sep xs @ js_split sep ys"
  by (induction xs) (auto split: list.splits simp add: js_split_not_empty)

lemma last_js_split:
  assumes "s = e \<or> s = base @ sep # e" and "sep \<notin> set e"
  shows "last (js_split sep s) = e"
  using assms by (auto simp add: js_split_append js_split_no_separator)

text \<open>
  Lower-casing gives a small ASCII letter exactly from that letter and from its
  capital, so a text lower-cases to one of the four extensions exactly when it spells
  it.
\<close>

lemma of_char_toLowerChar:
  "(of_char (toLowerChar c) :: nat) =
     (if (65 \<le> (of_char c :: nat) \<and> (of_char c :: nat) \<le> 90) \<or>
         (192 \<le> (of_char c :: nat) \<and> (of_char c :: nat) \<le> 222 \<and>
          (of_char c :: nat) \<noteq> 215)
      then of_char c + 32 else of_char c)"
  by (simp add: toLowerChar_def Let_def)

lemma toLowerChar_letter:
  assumes "97 \<le> (of_char l :: nat)" and "(of_char l :: nat) \<le> 122"
  shows "toLowerChar c = l \<longleftrightarrow> c = l \<or> (of_char c :: nat) + 32 = of_char l"
proof -
  have "toLowerChar c = l \<longleftrightarrow> (of_char (toLowerChar c) :: nat) = of_char l"
    by simp
  also have "\<dots> \<longleftrightarrow>
      (of_char c :: nat) = of_char l \<or> (of_char c :: nat) + 32 = of_char l"
    unfolding of_char_toLowerChar using assms by auto
  also have "\<dots> \<longleftrightarrow> c = l \<or> (of_char c :: nat) + 32 = of_char l"
    by simp
  finally show ?thesis .
qed

lemma toLowerCase_spells:
  assumes "list_all (\<lambda>l. 97 \<le> (of_char l :: nat) \<and> (of_char l :: nat) \<le> 122) x"
  shows "toLowerCase e = x \<longleftrightarrow> spells e x"
  using assms
proof (induction x arbitrary: e)
  case Nil
  then show ?case by (simp add: toLowerCase_def spells_def)
next
  case (Cons l x)
  then show ?case
    by (cases e) (auto simp add: toLowerCase_def spells_def toLowerChar_letter)
qed

lemma file_extension_spells:
  assumes "File.name file = e \<or> File.name file = base @ CHR ''.'' # e"
    and "CHR ''.'' \<notin> set e"
  shows "file_extension file = Some ''csv'' \<longleftrightarrow> spells e ''csv''"
    and "file_extension file = Some ''xlsx'' \<longleftrightarrow> spells e ''xlsx''"
    and "file_extension file = Some ''xls'' \<longleftrightarrow> spells e ''xls''"
    and "file_extension file = Some ''pdf'' \<longleftrightarrow> spells e ''pdf''"
  using last_js_split [OF assms]
  by (simp_all add: file_extension_def js_pop_def js_split_not_empty toLowerCase_spells)

lemma catch_message_not_empty: "catch_message err \<noteq> []"
  by (simp add: catch_message_def or_else_def split: option.splits)

text \<open>The three ways a run of \<open>handleFileSelect\<close> can go.\<close>

lemma handleFileSelect_extraction_throws:
  assumes "extract_content env file = Inl err"
  shows "handleFileSelect env file s =
           s\<lparr>isProcessing := False, error := Some (catch_message err)\<rparr>"
  using assms by (simp add: handleFileSelect_def catch_upload_def setters Let_def)

lemma handleFileSelect_analysis_throws:
  assumes "extract_content env file = Inr c"
    and "analyzeData env (File.name file) c = Inl err"
  shows "handleFileSelect env file s =
           s\<lparr>isProcessing := False,
             fileData := Some \<lparr>name = File.name file, content = c,
                               type = or_else (file_extension file) ''''\<rparr>,
             error := Some (catch_message err)\<rparr>"
  using assms by (simp add: handleFileSelect_def catch_upload_def setters Let_def)

lemma handleFileSelect_returns:
  assumes "extract_content env file = Inr c"
    and "analyzeData env (File.name file) c = Inr result"
  shows "handleFileSelect env file s =
           s\<lparr>isProcessing := False,
             fileData := Some \<lparr>name = File.name file, content = c,
                               type = or_else (file_extension file) ''''\<rparr>,
             analysis := Some result, chatMessages := [], error := None\<rparr>"
  using assms by (simp add: handleFileSelect_def setters Let_def)

text \<open>The sample files and what the test doubles make of them.\<close>

lemma extract_report_docx:
  "extract_content stub_services report_docx = Inl (Error (Some unsupported_format))"
  by code_simp

lemma extract_data_csv:
  "extract_content offline_services data_csv = Inr (''a,b'' @ [CHR 0x0A] @ ''1,2'')"
  by code_simp

lemma analyze_offline:
  "analyzeData offline_services n c = Inl (Error (Some ''Network error''))"
  by (simp add: offline_services_def stub_services_def)

lemma extract_data_csv_stub:
  "extract_content stub_services data_csv = Inr (''a,b'' @ [CHR 0x0A] @ ''1,2'')"
  by code_simp

lemma analyze_stub: "analyzeData stub_services n c = Inr stub_result"
  by (simp add: stub_services_def)

section \<open>Upload\<close>

text \<open>
  C1, as the code has it. Every failing run of \<open>handleFileSelect\<close> ends with the
  processing flag cleared and a non-empty error message recorded, and leaves the
  analysis, the chat history and the chat-loading flag as they were before the upload.
  When the extension is unsupported or the extraction throws, the file field too keeps
  its value (it stays null when it was null): nothing but the processing flag and the
  error message changes. When the analysis call throws, the file has been stored before
  the call (line 36) and stays stored: the file field holds the newly ingested file.
\<close>

theorem handleFileSelect_failure:
  "(extract_content env file = Inl err \<longrightarrow>
      handleFileSelect env file s =
        s\<lparr>isProcessing := False, error := Some (catch_message err)\<rparr>) \<and>
   (extract_content env file = Inr c \<and> analyzeData env (File.name file) c = Inl err \<longrightarrow>
      handleFileSelect env file s =
        s\<lparr>isProcessing := False,
          fileData := Some \<lparr>name = File.name file, content = c,
                            type = or_else (file_extension file) ''''\<rparr>,
          error := Some (catch_message err)\<rparr>) \<and>
   catch_message err \<noteq> []"
  by (simp add: handleFileSelect_extraction_throws handleFileSelect_analysis_throws
      catch_message_not_empty)

theorem handleFileSelect_failure_witness:
  "extract_content stub_services report_docx = Inl (Error (Some unsupported_format)) \<and>
   handleFileSelect stub_services report_docx initial_session =
     initial_session\<lparr>isProcessing := False, error := Some unsupported_format\<rparr> \<and>
   extract_content offline_services data_csv = Inr (''a,b'' @ [CHR 0x0A] @ ''1,2'') \<and>
   analyzeData offline_services (File.name data_csv) (''a,b'' @ [CHR 0x0A] @ ''1,2'') =
     Inl (Error (Some ''Network error'')) \<and>
   handleFileSelect offline_services data_csv initial_session =
     initial_session\<lparr>isProcessing := False,
       fileData := Some \<lparr>name = File.name data_csv, content = ''a,b'' @ [CHR 0x0A] @ ''1,2'',
                         type = or_else (file_extension data_csv) ''''\<rparr>,
       error := Some ''Network error''\<rparr>"
proof -
  have m1: "catch_message (Error (Some unsupported_format)) = unsupported_format"
    by code_simp
  have m2: "catch_message (Error (Some ''Network error'')) = ''Network error''"
    by code_simp
  show ?thesis
    using handleFileSelect_failure
            [of stub_services report_docx "Error (Some unsupported_format)"
               initial_session "[]"]
          handleFileSelect_failure
            [of offline_services data_csv "Error (Some ''Network error'')"
               initial_session "''a,b'' @ [CHR 0x0A] @ ''1,2''"]
    by (simp add: extract_report_docx extract_data_csv analyze_offline m1 m2)
qed

text \<open>
  C1 as it was stated fails where the analysis call is what fails: starting from the
  initial session, uploading \<^verbatim>\<open>data.csv\<close> while the analysis call rejects leaves the
  file field set to the new file, not null, so a field other than the processing flag
  and the error message has changed.
\<close>

theorem handleFileSelect_failure_sets_file:
  "analyzeData offline_services (File.name data_csv) (''a,b'' @ [CHR 0x0A] @ ''1,2'') =
     Inl (Error (Some ''Network error'')) \<and>
   fileData initial_session = None \<and>
   error (handleFileSelect offline_services data_csv initial_session) =
     Some ''Network error'' \<and>
   fileData (handleFileSelect offline_services data_csv initial_session) =
     Some \<lparr>name = ''data.csv'', content = ''a,b'' @ [CHR 0x0A] @ ''1,2'', type = ''csv''\<rparr>"
  by code_simp

text \<open>
  C2, as the code has it. When ingestion and the analysis call both succeed, the run of
  \<open>handleFileSelect\<close> ends with the chat history reset to the empty sequence and the
  file and analysis fields both replaced, by the new file and its analysis. A run that
  fails leaves the chat history and the analysis as they were.
\<close>

theorem handleFileSelect_success:
  "(extract_content env file = Inr c \<and> analyzeData env (File.name file) c = Inr result \<longrightarrow>
      handleFileSelect env file s =
        s\<lparr>isProcessing := False,
          fileData := Some \<lparr>name = File.name file, content = c,
                            type = or_else (file_extension file) ''''\<rparr>,
          analysis := Some result, chatMessages := [], error := None\<rparr>) \<and>
   (extract_content env file = Inl err \<or>
    extract_content env file = Inr c \<and> analyzeData env (File.name file) c = Inl err \<longrightarrow>
      chatMessages (handleFileSelect env file s) = chatMessages s \<and>
      analysis (handleFileSelect env file s) = analysis s)"
  by (auto simp add: handleFileSelect_returns handleFileSelect_extraction_throws
      handleFileSelect_analysis_throws)

theorem handleFileSelect_success_witness:
  "extract_content stub_services data_csv = Inr (''a,b'' @ [CHR 0x0A] @ ''1,2'') \<and>
   analyzeData stub_services (File.name data_csv) (''a,b'' @ [CHR 0x0A] @ ''1,2'') =
     Inr stub_result \<and>
   handleFileSelect stub_services data_csv ready_session =
     ready_session\<lparr>isProcessing := False,
       fileData := Some \<lparr>name = File.name data_csv, content = ''a,b'' @ [CHR 0x0A] @ ''1,2'',
                         type = or_else (file_extension data_csv) ''''\<rparr>,
       analysis := Some stub_result, chatMessages := [], error := None\<rparr> \<and>
   extract_content stub_services report_docx = Inl (Error (Some unsupported_format)) \<and>
   chatMessages (handleFileSelect stub_services report_docx ready_session) =
     chatMessages ready_session \<and>
   analysis (handleFileSelect stub_services report_docx ready_session) =
     analysis ready_session"
  using handleFileSelect_success
          [of stub_services data_csv "''a,b'' @ [CHR 0x0A] @ ''1,2''" stub_result
             ready_session "Error None"]
        handleFileSelect_success
          [of stub_services report_docx "[]" stub_result ready_session
             "Error (Some unsupported_format)"]
  by (simp add: extract_report_docx extract_data_csv_stub analyze_stub)

text \<open>
  C2 as it was stated fails on every failing run. From a session with a file, its
  analysis and two chat messages, the upload of \<^verbatim>\<open>report.docx\<close> is refused and the chat
  history, the file and the analysis are all still there; and when \<^verbatim>\<open>data.csv\<close> is
  ingested but its analysis call rejects, the new file stands beside the analysis of
  the old one.
\<close>

theorem handleFileSelect_failure_keeps_chat:
  "length (chatMessages ready_session) = 2 \<and>
   chatMessages (handleFileSelect stub_services report_docx ready_session) =
     chatMessages ready_session \<and>
   fileData (handleFileSelect stub_services report_docx ready_session) =
     fileData ready_session \<and>
   analysis (handleFileSelect stub_services report_docx ready_session) =
     analysis ready_session \<and>
   length (chatMessages (handleFileSelect offline_services data_csv ready_session)) = 2 \<and>
   fileData (handleFileSelect offline_services data_csv ready_session) =
     Some \<lparr>name = ''data.csv'', content = ''a,b'' @ [CHR 0x0A] @ ''1,2'', type = ''csv''\<rparr> \<and>
   analysis (handleFileSelect offline_services data_csv ready_session) =
     analysis ready_session"
  by code_simp

text \<open>
  C7, as the code has it. The extension of a file is the text after the last dot of its
  name, the whole name when it has no dot, read without regard to the case of its
  letters. A file whose extension is none of csv, xlsx, xls and pdf is refused: the
  extraction throws the unsupported-format error, and the run ends with the processing
  flag cleared, that message recorded and every other field, the file and the analysis
  among them, as it was (null when they were null). A file whose extension is one of
  the four goes to the strategy of that extension, and the extraction is the outcome of
  that strategy, the extracted text when it returns and its error when it throws: the
  text of the file through \<open>parseCSV\<close> for csv, \<open>parseExcel\<close> for xlsx and xls,
  \<open>parsePDF\<close> for pdf.
\<close>

theorem handleFileSelect_by_extension:
  assumes "File.name file = e \<or> File.name file = base @ CHR ''.'' # e"
    and "CHR ''.'' \<notin> set e"
  shows
    "(\<not> spells e ''csv'' \<and> \<not> spells e ''xlsx'' \<and> \<not> spells e ''xls'' \<and>
      \<not> spells e ''pdf'' \<longrightarrow>
        extract_content env file =
          Inl (Error (Some ''Unsupported file format. Please upload CSV, Excel, or PDF.'')) \<and>
        handleFileSelect env file s =
          s\<lparr>isProcessing := False,
            error := Some ''Unsupported file format. Please upload CSV, Excel, or PDF.''\<rparr>) \<and>
     (spells e ''csv'' \<longrightarrow>
        extract_content env file =
          (case file_text env file of Inl err \<Rightarrow> Inl err | Inr txt \<Rightarrow> parseCSV env txt)) \<and>
     (spells e ''xlsx'' \<or> spells e ''xls'' \<longrightarrow>
        extract_content env file = parseExcel env file) \<and>
     (spells e ''pdf'' \<longrightarrow>
        extract_content env file = parsePDF env file)"
  unfolding file_extension_spells [OF assms, symmetric]
  by (auto simp add: extract_content_def handleFileSelect_def catch_upload_def
      catch_message_def setters or_else_def unsupported_format_def)

theorem handleFileSelect_by_extension_witness:
  "File.name report_docx = ''report.docx'' \<and> CHR ''.'' \<notin> set ''docx'' \<and>
   \<not> spells ''docx'' ''csv'' \<and> \<not> spells ''docx'' ''xlsx'' \<and>
   \<not> spells ''docx'' ''xls'' \<and> \<not> spells ''docx'' ''pdf'' \<and>
   extract_content stub_services report_docx =
     Inl (Error (Some ''Unsupported file format. Please upload CSV, Excel, or PDF.'')) \<and>
   handleFileSelect stub_services report_docx initial_session =
     initial_session
       \<lparr>isProcessing := False,
        error := Some ''Unsupported file format. Please upload CSV, Excel, or PDF.''\<rparr> \<and>
   File.name data_csv = ''data.csv'' \<and> spells ''csv'' ''csv'' \<and>
   extract_content stub_services data_csv =
     (case file_text stub_services data_csv of
        Inl err \<Rightarrow> Inl err
      | Inr txt \<Rightarrow> parseCSV stub_services txt) \<and>
   File.name book_xlsx = ''book.XLSX'' \<and> spells ''XLSX'' ''xlsx'' \<and>
   extract_content stub_services book_xlsx = parseExcel stub_services book_xlsx \<and>
   File.name scan_pdf = ''scan.v2.pdf'' \<and> spells ''pdf'' ''pdf'' \<and>
   extract_content stub_services scan_pdf = parsePDF stub_services scan_pdf \<and>
   File.name bare_csv = ''CSV'' \<and> spells ''CSV'' ''csv'' \<and>
   extract_content stub_services bare_csv =
     (case file_text stub_services bare_csv of
        Inl err \<Rightarrow> Inl err
      | Inr txt \<Rightarrow> parseCSV stub_services txt)"
proof -
  have n1: "File.name report_docx = ''docx'' \<or>
      File.name report_docx = ''report'' @ CHR ''.'' # ''docx''"
    by (simp add: report_docx_def)
  have n2: "File.name data_csv = ''csv'' \<or>
      File.name data_csv = ''data'' @ CHR ''.'' # ''csv''"
    by (simp add: data_csv_def)
  have n3: "File.name book_xlsx = ''XLSX'' \<or>
      File.name book_xlsx = ''book'' @ CHR ''.'' # ''XLSX''"
    by (simp add: book_xlsx_def)
  have n4: "File.name scan_pdf = ''pdf'' \<or>
      File.name scan_pdf = ''scan.v2'' @ CHR ''.'' # ''pdf''"
    by (simp add: scan_pdf_def)
  have n5: "File.name bare_csv = ''CSV'' \<or>
      File.name bare_csv = [] @ CHR ''.'' # ''CSV''"
    by (simp add: bare_csv_def)
  have d1: "CHR ''.'' \<notin> set ''docx''" by simp
  have d2: "CHR ''.'' \<notin> set ''csv''" by simp
  have d3: "CHR ''.'' \<notin> set ''XLSX''" by simp
  have d4: "CHR ''.'' \<notin> set ''pdf''" by simp
  have d5: "CHR ''.'' \<notin> set ''CSV''" by simp
  have s1: "\<not> spells ''docx'' ''csv'' \<and> \<not> spells ''docx'' ''xlsx'' \<and>
      \<not> spells ''docx'' ''xls'' \<and> \<not> spells ''docx'' ''pdf''"
    by (simp add: spells_def)
  have s2: "spells ''csv'' ''csv''" by (simp add: spells_def)
  have s3: "spells ''XLSX'' ''xlsx''" by (simp add: spells_def)
  have s4: "spells ''pdf'' ''pdf''" by (simp add: spells_def)
  have s5: "spells ''CSV'' ''csv''" by (simp add: spells_def)
  have f: "File.name report_docx = ''report.docx'' \<and> File.name data_csv = ''data.csv'' \<and>
      File.name book_xlsx = ''book.XLSX'' \<and> File.name scan_pdf = ''scan.v2.pdf'' \<and>
      File.name bare_csv = ''CSV''"
    by (simp add: report_docx_def data_csv_def book_xlsx_def scan_pdf_def bare_csv_def)
  show ?thesis
    using handleFileSelect_by_extension [OF n1 d1, of stub_services initial_session]
          handleFileSelect_by_extension [OF n2 d2, of stub_services initial_session]
          handleFileSelect_by_extension [OF n3 d3, of stub_services initial_session]
          handleFileSelect_by_extension [OF n4 d4, of stub_services initial_session]
          handleFileSelect_by_extension [OF n5 d5, of stub_services initial_session]
          s1 s2 s3 s4 s5 f
    by simp
qed

text \<open>
  C7 as it was stated fails in two places. A file with a supported extension does not
  always come back as extracted text: \<^verbatim>\<open>broken.xlsx\<close> goes to the workbook strategy,
  which throws, and the run ends with that strategy's message recorded and no file
  stored. And a name with no dot is taken whole as the extension: the file named
  \<^verbatim>\<open>CSV\<close> is not refused but read as CSV.
\<close>

theorem handleFileSelect_supported_but_failing:
  "File.name broken_xlsx = ''broken.xlsx'' \<and>
   extract_content stub_services broken_xlsx = Inl (Error (Some ''Corrupt workbook'')) \<and>
   handleFileSelect stub_services broken_xlsx initial_session =
     initial_session\<lparr>isProcessing := False, error := Some ''Corrupt workbook''\<rparr> \<and>
   File.name bare_csv = ''CSV'' \<and>
   extract_content stub_services bare_csv = Inr ''a,b''"
  by code_simp

section \<open>Chat\<close>

text \<open>
  C3. With no file loaded \<open>handleSendMessage\<close> does nothing: its first step returns
  the session it was given and sends no request, and the whole run returns that same
  session, so the chat history, its length, the error message and every other field
  are unchanged.
\<close>

theorem handleSendMessage_without_file:
  "fileData s = None \<Longrightarrow>
   handleSendMessage_start txt t1 s = (s, None) \<and> handleSendMessage env txt t1 t2 s = s"
  by (simp add: handleSendMessage_def handleSendMessage_start_def)

theorem handleSendMessage_without_file_witness:
  "fileData initial_session = None \<and>
   handleSendMessage_start ''How many rows?'' 20 initial_session = (initial_session, None) \<and>
   handleSendMessage stub_services ''How many rows?'' 20 21 initial_session = initial_session"
proof -
  have h: "fileData initial_session = None" by (simp add: initial_session_def)
  show ?thesis
    using h handleSendMessage_without_file
              [OF h, of "''How many rows?''" 20 stub_services 21]
    by simp
qed

text \<open>
  C4, as the code has it. With a file loaded and a chat call that returns, the run
  appends exactly two messages: the user's, with the submitted text, then the model's,
  with the reply text when the reply is not empty and the fixed fallback text when it
  is. The user's message is already in the history after the first step, before the
  call settles.
\<close>

theorem handleSendMessage_success:
  "fileData s = Some fd \<Longrightarrow>
   chatWithData env txt (content fd) (map (\<lambda>m. (role m, text m)) (chatMessages s)) =
     Inr reply \<Longrightarrow>
   chatMessages (fst (handleSendMessage_start txt t1 s)) =
     chatMessages s @ [\<lparr>role = user, text = txt, timestamp = t1\<rparr>] \<and>
   chatMessages (handleSendMessage env txt t1 t2 s) =
     chatMessages s @
       [\<lparr>role = user, text = txt, timestamp = t1\<rparr>,
        \<lparr>role = model,
         text = (if reply = [] then ''Sorry, I could not process that.'' else reply),
         timestamp = t2\<rparr>]"
  by (simp add: handleSendMessage_def handleSendMessage_start_def
      handleSendMessage_settle_def setters Let_def or_else_def)

theorem handleSendMessage_success_witness:
  "fileData ready_session =
     Some \<lparr>name = ''old.csv'', content = ''x,y'', type = ''csv''\<rparr> \<and>
   chatWithData stub_services ''Why?'' ''x,y''
     (map (\<lambda>m. (role m, text m)) (chatMessages ready_session)) = Inr ''Two rows.'' \<and>
   chatMessages (fst (handleSendMessage_start ''Why?'' 20 ready_session)) =
     chatMessages ready_session @ [\<lparr>role = user, text = ''Why?'', timestamp = 20\<rparr>] \<and>
   chatMessages (handleSendMessage stub_services ''Why?'' 20 21 ready_session) =
     chatMessages ready_session @
       [\<lparr>role = user, text = ''Why?'', timestamp = 20\<rparr>,
        \<lparr>role = model, text = ''Two rows.'', timestamp = 21\<rparr>]"
proof -
  have h1: "fileData ready_session =
      Some \<lparr>name = ''old.csv'', content = ''x,y'', type = ''csv''\<rparr>"
    by (simp add: ready_session_def)
  have h2: "chatWithData stub_services ''Why?''
      (content \<lparr>name = ''old.csv'', content = ''x,y'', type = ''csv''\<rparr>)
      (map (\<lambda>m. (role m, text m)) (chatMessages ready_session)) = Inr ''Two rows.''"
    by (simp add: stub_services_def)
  show ?thesis
    using h1 h2 handleSendMessage_success [OF h1 h2, of 20 21]
    by simp
qed

text \<open>
  C4 as it was stated fails when the call returns the empty string: the model's message
  then carries the fallback text, not the reply text.
\<close>

theorem handleSendMessage_empty_reply:
  "chatWithData mute_services ''Why?'' ''x,y''
     (map (\<lambda>m. (role m, text m)) (chatMessages ready_session)) = Inr [] \<and>
   chatMessages (handleSendMessage mute_services ''Why?'' 20 21 ready_session) =
     chatMessages ready_session @
       [\<lparr>role = user, text = ''Why?'', timestamp = 20\<rparr>,
        \<lparr>role = model, text = ''Sorry, I could not process that.'', timestamp = 21\<rparr>]"
  by code_simp

text \<open>
  C5. With a file loaded and a chat call that throws, the run still appends exactly two
  messages: the user's, then one of role model whose text is \<^verbatim>\<open>Error: \<close> followed by
  the message of what was thrown (by \<^verbatim>\<open>undefined\<close> when the thrown value has no
  message). Nothing else changes but the loading flag, which is cleared: the failure is
  caught, no error message is recorded in the session and the run returns.
\<close>

theorem handleSendMessage_failure:
  "fileData s = Some fd \<Longrightarrow>
   chatWithData env txt (content fd) (map (\<lambda>m. (role m, text m)) (chatMessages s)) =
     Inl err \<Longrightarrow>
   (message err = Some msg \<longrightarrow>
      handleSendMessage env txt t1 t2 s =
        s\<lparr>chatMessages :=
            chatMessages s @
              [\<lparr>role = user, text = txt, timestamp = t1\<rparr>,
               \<lparr>role = model, text = ''Error: '' @ msg, timestamp = t2\<rparr>],
          isChatLoading := False\<rparr>) \<and>
   (message err = None \<longrightarrow>
      handleSendMessage env txt t1 t2 s =
        s\<lparr>chatMessages :=
            chatMessages s @
              [\<lparr>role = user, text = txt, timestamp = t1\<rparr>,
               \<lparr>role = model, text = ''Error: undefined'', timestamp = t2\<rparr>],
          isChatLoading := False\<rparr>)"
  by (simp add: handleSendMessage_def handleSendMessage_start_def
      handleSendMessage_settle_def setters Let_def string_of_def)

theorem handleSendMessage_failure_witness:
  "fileData ready_session =
     Some \<lparr>name = ''old.csv'', content = ''x,y'', type = ''csv''\<rparr> \<and>
   chatWithData offline_services ''Why?'' ''x,y''
     (map (\<lambda>m. (role m, text m)) (chatMessages ready_session)) =
     Inl (Error (Some ''Network error'')) \<and>
   handleSendMessage offline_services ''Why?'' 20 21 ready_session =
     ready_session
       \<lparr>chatMessages :=
          chatMessages ready_session @
            [\<lparr>role = user, text = ''Why?'', timestamp = 20\<rparr>,
             \<lparr>role = model, text = ''Error: Network error'', timestamp = 21\<rparr>],
        isChatLoading := False\<rparr> \<and>
   chatWithData crashing_services ''Why?'' ''x,y''
     (map (\<lambda>m. (role m, text m)) (chatMessages ready_session)) = Inl (Error None) \<and>
   handleSendMessage crashing_services ''Why?'' 20 21 ready_session =
     ready_session
       \<lparr>chatMessages :=
          chatMessages ready_session @
            [\<lparr>role = user, text = ''Why?'', timestamp = 20\<rparr>,
             \<lparr>role = model, text = ''Error: undefined'', timestamp = 21\<rparr>],
        isChatLoading := False\<rparr>"
proof -
  have h1: "fileData ready_session =
      Some \<lparr>name = ''old.csv'', content = ''x,y'', type = ''csv''\<rparr>"
    by (simp add: ready_session_def)
  have h2: "chatWithData offline_services ''Why?''
      (content \<lparr>name = ''old.csv'', content = ''x,y'', type = ''csv''\<rparr>)
      (map (\<lambda>m. (role m, text m)) (chatMessages ready_session)) =
      Inl (Error (Some ''Network error''))"
    by (simp add: offline_services_def stub_services_def)
  have h3: "chatWithData crashing_services ''Why?''
      (content \<lparr>name = ''old.csv'', content = ''x,y'', type = ''csv''\<rparr>)
      (map (\<lambda>m. (role m, text m)) (chatMessages ready_session)) = Inl (Error None)"
    by (simp add: crashing_services_def stub_services_def)
  show ?thesis
    using h1 h2 h3
      handleSendMessage_failure [OF h1 h2, of "''Network error''" 20 21]
      handleSendMessage_failure [OF h1 h3, of "[]" 20 21]
    by simp
qed

text \<open>
  C8. With a file loaded, the request that goes out holds the question text, the
  content of the loaded file, and the chat history of the session the handler was
  called on, each message cut down to its role and text. That history is the one from
  before the user's message was appended: the state after the first step has one
  message more. The whole run is the second step applied to what \<open>chatWithData\<close>
  gives on these three arguments.
\<close>

theorem handleSendMessage_request:
  "fileData s = Some fd \<Longrightarrow>
   snd (handleSendMessage_start txt t1 s) =
     Some \<lparr>question = txt, grounding = content fd,
            history = map (\<lambda>m. (role m, text m)) (chatMessages s)\<rparr> \<and>
   chatMessages (fst (handleSendMessage_start txt t1 s)) =
     chatMessages s @ [\<lparr>role = user, text = txt, timestamp = t1\<rparr>] \<and>
   handleSendMessage env txt t1 t2 s =
     handleSendMessage_settle
       (chatWithData env txt (content fd) (map (\<lambda>m. (role m, text m)) (chatMessages s)))
       t2 (fst (handleSendMessage_start txt t1 s))"
  by (simp add: handleSendMessage_def handleSendMessage_start_def setters Let_def)

theorem handleSendMessage_request_witness:
  "fileData ready_session =
     Some \<lparr>name = ''old.csv'', content = ''x,y'', type = ''csv''\<rparr> \<and>
   snd (handleSendMessage_start ''Why?'' 20 ready_session) =
     Some \<lparr>question = ''Why?'', grounding = ''x,y'',
            history = [(user, ''How many rows?''), (model, ''Two rows.'')]\<rparr>"
proof -
  have h1: "fileData ready_session =
      Some \<lparr>name = ''old.csv'', content = ''x,y'', type = ''csv''\<rparr>"
    by (simp add: ready_session_def)
  have h2: "map (\<lambda>m. (role m, text m)) (chatMessages ready_session) =
      [(user, ''How many rows?''), (model, ''Two rows.'')]"
    by (simp add: ready_session_def)
  show ?thesis
    using h1 handleSendMessage_request [OF h1, of "''Why?''" 20 stub_services 21]
    by (simp add: h2)
qed

text \<open>
  C9. When the chat call returns the empty string, the model's message carries the
  fixed fallback text and not an empty body; so the message of role model that a
  successful call appends never has an empty text.
\<close>

theorem handleSendMessage_fallback:
  "fileData s = Some fd \<Longrightarrow>
   chatWithData env txt (content fd) (map (\<lambda>m. (role m, text m)) (chatMessages s)) =
     Inr reply \<Longrightarrow>
   role (last (chatMessages (handleSendMessage env txt t1 t2 s))) = model \<and>
   text (last (chatMessages (handleSendMessage env txt t1 t2 s))) \<noteq> [] \<and>
   (reply = [] \<longrightarrow>
      text (last (chatMessages (handleSendMessage env txt t1 t2 s))) =
        ''Sorry, I could not process that.'')"
  by (simp add: handleSendMessage_def handleSendMessage_start_def
      handleSendMessage_settle_def setters Let_def or_else_def)

theorem handleSendMessage_fallback_witness:
  "fileData ready_session =
     Some \<lparr>name = ''old.csv'', content = ''x,y'', type = ''csv''\<rparr> \<and>
   chatWithData mute_services ''Why?'' ''x,y''
     (map (\<lambda>m. (role m, text m)) (chatMessages ready_session)) = Inr [] \<and>
   role (last (chatMessages (handleSendMessage mute_services ''Why?'' 20 21 ready_session))) =
     model \<and>
   text (last (chatMessages (handleSendMessage mute_services ''Why?'' 20 21 ready_session))) =
     ''Sorry, I could not process that.''"
proof -
  have h1: "fileData ready_session =
      Some \<lparr>name = ''old.csv'', content = ''x,y'', type = ''csv''\<rparr>"
    by (simp add: ready_session_def)
  have h2: "chatWithData mute_services ''Why?''
      (content \<lparr>name = ''old.csv'', content = ''x,y'', type = ''csv''\<rparr>)
      (map (\<lambda>m. (role m, text m)) (chatMessages ready_session)) = Inr []"
    by (simp add: mute_services_def stub_services_def)
  show ?thesis
    using h1 h2 handleSendMessage_fallback [OF h1 h2, of 20 21]
    by simp
qed

section \<open>Reset\<close>

text \<open>
  C6. Whatever the session was, \<open>handleReset\<close> returns (it is a total function with
  no call that can fail) a session whose file is null, whose analysis is null, whose
  chat history is the empty sequence and whose error message is null.
\<close>

theorem handleReset_clears:
  "fileData (handleReset s) = None \<and> analysis (handleReset s) = None \<and>
   chatMessages (handleReset s) = [] \<and> error (handleReset s) = None"
  by (simp add: handleReset_def setFileData_def setAnalysis_def setChatMessages_def
      setError_def)

text \<open>
  C10. \<open>handleReset\<close> writes the file, the analysis, the chat history and the error
  message and nothing else: the processing flag and the chat-loading flag keep their
  values. So when a reset comes between the two steps of \<open>handleSendMessage\<close>, the
  loading flag set by the first step is still set after the reset, and it is cleared
  only by the second step, when the call settles, whatever its outcome.
\<close>

theorem handleReset_frame:
  "handleReset s = s\<lparr>fileData := None, analysis := None, chatMessages := [], error := None\<rparr> \<and>
   isProcessing (handleReset s) = isProcessing s \<and>
   isChatLoading (handleReset s) = isChatLoading s \<and>
   (fileData s \<noteq> None \<longrightarrow>
      isChatLoading (handleReset (fst (handleSendMessage_start txt t1 s))) \<and>
      \<not> isChatLoading
          (handleSendMessage_settle outcome t2
             (handleReset (fst (handleSendMessage_start txt t1 s)))))"
  by (auto simp add: handleReset_def handleSendMessage_start_def
      handleSendMessage_settle_def setters Let_def split: sum.splits)

theorem handleReset_frame_witness:
  "fileData ready_session \<noteq> None \<and>
   isChatLoading (handleReset (fst (handleSendMessage_start ''Why?'' 20 ready_session))) \<and>
   \<not> isChatLoading
       (handleSendMessage_settle (Inr ''Two rows.'') 21
          (handleReset (fst (handleSendMessage_start ''Why?'' 20 ready_session))))"
proof -
  have h: "fileData ready_session \<noteq> None" by (simp add: ready_session_def)
  show ?thesis
    using h handleReset_frame [of ready_session "''Why?''" 20 "Inr ''Two rows.''" 21]
    by simp
qed

end
